theory Spec2Isabelle
  imports Complex_Main
begin

section \<open>Python types and values\<close>

text \<open>
  A Python class is modelled by what the library reads of it: \<open>__module__\<close>,
  \<open>__name__\<close>, its identity (two classes may share module and name, as classes defined
  inside a function do) and its direct bases.
\<close>

datatype pytype =
  PyType (type_module: string) (type_name: string) (type_ident: nat) (type_bases: "pytype list")

fun issubclass :: "pytype \<Rightarrow> pytype \<Rightarrow> bool" where
  "issubclass (PyType m n i bs) u = (PyType m n i bs = u \<or> list_ex (\<lambda>b. issubclass b u) bs)"

definition object_t :: pytype where "object_t = PyType ''builtins'' ''object'' 0 []"
definition type_t :: pytype where "type_t = PyType ''builtins'' ''type'' 1 [object_t]"
definition NoneType_t :: pytype where "NoneType_t = PyType ''builtins'' ''NoneType'' 2 [object_t]"
definition int_t :: pytype where "int_t = PyType ''builtins'' ''int'' 3 [object_t]"
definition bool_t :: pytype where "bool_t = PyType ''builtins'' ''bool'' 4 [int_t]"
definition float_t :: pytype where "float_t = PyType ''builtins'' ''float'' 5 [object_t]"
definition str_t :: pytype where "str_t = PyType ''builtins'' ''str'' 6 [object_t]"
definition list_t :: pytype where "list_t = PyType ''builtins'' ''list'' 7 [object_t]"
definition tuple_t :: pytype where "tuple_t = PyType ''builtins'' ''tuple'' 8 [object_t]"
definition set_t :: pytype where "set_t = PyType ''builtins'' ''set'' 9 [object_t]"
definition frozenset_t :: pytype where "frozenset_t = PyType ''builtins'' ''frozenset'' 10 [object_t]"
definition dict_t :: pytype where "dict_t = PyType ''builtins'' ''dict'' 11 [object_t]"
definition function_t :: pytype where "function_t = PyType ''builtins'' ''function'' 12 [object_t]"
definition generator_t :: pytype where "generator_t = PyType ''builtins'' ''generator'' 13 [object_t]"
definition ABCMeta_t :: pytype where "ABCMeta_t = PyType ''abc'' ''ABCMeta'' 14 [type_t]"
definition ABC_t :: pytype where "ABC_t = PyType ''abc'' ''ABC'' 15 [object_t]"
definition date_t :: pytype where "date_t = PyType ''datetime'' ''date'' 16 [object_t]"
definition datetime_t :: pytype where "datetime_t = PyType ''datetime'' ''datetime'' 17 [date_t]"
definition Configurable_t :: pytype where
  "Configurable_t = PyType ''json_configs'' ''Configurable'' 18 [ABC_t]"
definition AutoConfigured_t :: pytype where
  "AutoConfigured_t = PyType ''json_configs'' ''AutoConfigured'' 19 [Configurable_t]"
definition WrapAutoConfig_t :: pytype where
  "WrapAutoConfig_t = PyType ''json_configs'' ''WrapAutoConfig'' 20 [object_t]"

lemmas builtin_type_defs =
  object_t_def type_t_def NoneType_t_def int_t_def bool_t_def float_t_def str_t_def list_t_def
  tuple_t_def set_t_def frozenset_t_def dict_t_def function_t_def generator_t_def ABCMeta_t_def
  ABC_t_def date_t_def datetime_t_def Configurable_t_def AutoConfigured_t_def WrapAutoConfig_t_def

text \<open>
  The values the library handles. A \<open>Configuration\<close> is one of these values too (None, bool,
  int, float, str, list, dict with string keys): Python has one universe of objects, and
  \<open>get_config\<close> and \<open>configure\<close> map it to itself. A float is modelled by its numeric value
  (NaN and the infinities are outside the model); a dict by its items in insertion order;
  a set by its elements in iteration order; an instance of a class by its class, its
  identity and the pairs \<open>(name, getattr(obj, name))\<close> for the names of \<open>dir(obj)\<close>;
  functions and bound methods by \<open>PCallable\<close>; a generator by the values it will yield.
\<close>

datatype pyval =
    PNone
  | PBool bool
  | PInt int
  | PFloat rat
  | PStr string
  | PList "pyval list"
  | PTuple "pyval list"
  | PSet "pyval list"
  | PFrozenset "pyval list"
  | PDict "(pyval \<times> pyval) list"
  | PType pytype
  | PObject pytype nat "(string \<times> pyval) list"
  | PCallable nat

text \<open>\<open>type(obj)\<close>. A class derived from \<open>abc.ABC\<close> has the metaclass \<open>ABCMeta\<close>.\<close>

fun py_type :: "pyval \<Rightarrow> pytype" where
  "py_type PNone = NoneType_t"
| "py_type (PBool _) = bool_t"
| "py_type (PInt _) = int_t"
| "py_type (PFloat _) = float_t"
| "py_type (PStr _) = str_t"
| "py_type (PList _) = list_t"
| "py_type (PTuple _) = tuple_t"
| "py_type (PSet _) = set_t"
| "py_type (PFrozenset _) = frozenset_t"
| "py_type (PDict _) = dict_t"
| "py_type (PType t) = (if issubclass t ABC_t then ABCMeta_t else type_t)"
| "py_type (PObject t _ _) = t"
| "py_type (PCallable _) = function_t"

definition isinstance :: "pyval \<Rightarrow> pytype \<Rightarrow> bool" where
  "isinstance obj t = issubclass (py_type obj) t"

text \<open>\<open>name.startswith('_')\<close>\<close>

fun startswith_underscore :: "string \<Rightarrow> bool" where
  "startswith_underscore [] = False"
| "startswith_underscore (c # _) = (c = CHR ''_'')"

text \<open>\<open>inspect.Traceback\<close>, of which the library reads \<open>filename\<close> and \<open>lineno\<close>.\<close>

record traceback =
  filename :: string
  lineno :: nat

text \<open>
  The exceptions, as values. The spec calls the \<open>NameError\<close> of a registration
  NamingConflict and the \<open>NameError\<close> of \<open>get_type\<close> and the \<open>ValueError\<close> of \<open>locate\<close>
  AccessDenied, and the \<open>TypeError\<close> of \<open>get_config\<close> and \<open>configure\<close> NotConfigurable.
  \<open>OutsideModel\<close> is no exception of Python: it marks the places where the model does
  not say what the program does.
\<close>

datatype error =
    NamingConflict string string string traceback
      \<comment> \<open>\<open>Context.register\<close>: class name, module name, context name, previous registration\<close>
  | GetterConflict pytype traceback
      \<comment> \<open>\<open>config_getter\<close>: the type, previous registration\<close>
  | SetterConflict pytype traceback
      \<comment> \<open>\<open>config_setter\<close>: the type, previous registration\<close>
  | AccessDenied pyval pyval string
      \<comment> \<open>\<open>Context.get_type\<close>: class name, module name (strings, unless an ill-formed
          tag is resolved), context name\<close>
  | NotAccessible pytype string
      \<comment> \<open>\<open>Context.locate\<close>: the type, context name\<close>
  | NotConfigurable pytype
      \<comment> \<open>\<open>get_config\<close>, \<open>configure\<close>: the type\<close>
  | TypeError pyval
  | KeyError pyval
  | AttributeError string
  | ImportError string
  | ValueError
  | AssertionError
  | OutsideModel

section \<open>The hook registry\<close>

text \<open>The fields of the dataclass \<open>WrapAutoConfig\<close> (\<open>self.wrapped\<close>, \<open>self.typed\<close>, ...).\<close>

record WrapAutoConfig =
  self_wrapped :: pytype
  self_typed :: bool
  self_unconfigured_properties :: "string list option"
  self_property_types :: "(string \<times> pytype) list option"
  self_init_args :: "string list option"
  self_init_kwargs :: "(string \<times> string) list option"

text \<open>
  The functions a registry can hold: the hooks the module defines, the bound methods of a
  \<open>WrapAutoConfig\<close> instance, the wrapper that \<open>config_type_boxer\<close> builds, and functions
  of the embedding program, given by what they return.
\<close>

datatype getter =
    GetSimpleConfig
  | GetPythonTypeConfig
  | GetDatetimeConfig
  | GetIterableConfig
  | GetMappingConfig
  | WrapGetConfig WrapAutoConfig
  | ConfigTypeBoxer pytype getter
  | UserGetter "pyval \<Rightarrow> string option \<Rightarrow> error + pyval"

datatype setter =
    ConfigureSimple
  | ConfigurePythonType
  | ConfigureDatetime
  | ConfigureIterable
  | ConfigureMapping
  | WrapConfigure WrapAutoConfig
  | UserSetter "pyval \<Rightarrow> pyval \<Rightarrow> string option \<Rightarrow> error + pyval"

text \<open>\<open>GET_CONFIG_REGISTRY\<close>, \<open>CONFIGURE_REGISTRY\<close>, \<open>GET_CONFIG_FROM\<close>, \<open>CONFIGURE_FROM\<close>\<close>

record hooks =
  GET_CONFIG_REGISTRY :: "pytype \<rightharpoonup> getter"
  CONFIGURE_REGISTRY :: "pytype \<rightharpoonup> setter"
  GET_CONFIG_FROM :: "pytype \<rightharpoonup> traceback"
  CONFIGURE_FROM :: "pytype \<rightharpoonup> traceback"

definition config_type_boxer :: "pytype \<Rightarrow> getter \<Rightarrow> getter" where
  "config_type_boxer ty func = ConfigTypeBoxer ty func"

text \<open>
  \<open>config_getter(*types, typed, func, overwrite)\<close>. It raises, returns a decorator (when
  \<open>func\<close> is None: the lambda, which keeps \<open>types\<close> and \<open>typed\<close> and nothing else), or
  registers. \<open>caller\<close> is what \<open>get_caller_info()\<close> returns: the place of the call from
  outside the package.
\<close>

datatype getter_decorator = GetterDecorator "pytype list" bool
datatype setter_decorator = SetterDecorator "pytype list"

datatype ('d, 'f) registration = Raised error | Decorator 'd | Registered 'f hooks

fun getter_conflict :: "hooks \<Rightarrow> pytype list \<Rightarrow> error option" where
  "getter_conflict h [] = None"
| "getter_conflict h (ty # types) =
     (if ty \<in> dom (GET_CONFIG_REGISTRY h) then
        (case GET_CONFIG_FROM h ty of
           None \<Rightarrow> Some (KeyError (PType ty))
         | Some info \<Rightarrow> Some (GetterConflict ty info))
      else getter_conflict h types)"

fun getter_store :: "hooks \<Rightarrow> pytype list \<Rightarrow> bool \<Rightarrow> getter \<Rightarrow> traceback \<Rightarrow> hooks" where
  "getter_store h [] typed func caller = h"
| "getter_store h (ty # types) typed func caller =
     (let wrapper = (if typed then config_type_boxer ty func else func) in
      getter_store
        (h\<lparr>GET_CONFIG_REGISTRY := (GET_CONFIG_REGISTRY h)(ty \<mapsto> wrapper),
           GET_CONFIG_FROM := (GET_CONFIG_FROM h)(ty \<mapsto> caller)\<rparr>)
        types typed func caller)"

definition config_getter ::
  "hooks \<Rightarrow> pytype list \<Rightarrow> bool \<Rightarrow> getter option \<Rightarrow> bool \<Rightarrow> traceback
    \<Rightarrow> (getter_decorator, getter) registration" where
  "config_getter h types typed func overwrite caller =
     (case (if \<not> overwrite then getter_conflict h types else None) of
        Some e \<Rightarrow> Raised e
      | None \<Rightarrow>
          (case func of
             None \<Rightarrow> Decorator (GetterDecorator types typed)
           | Some f \<Rightarrow> Registered f (getter_store h types typed f caller)))"


fun setter_conflict :: "hooks \<Rightarrow> pytype list \<Rightarrow> error option" where
  "setter_conflict h [] = None"
| "setter_conflict h (ty # types) =
     (if ty \<in> dom (CONFIGURE_REGISTRY h) then
        (case CONFIGURE_FROM h ty of
           None \<Rightarrow> Some (KeyError (PType ty))
         | Some info \<Rightarrow> Some (SetterConflict ty info))
      else setter_conflict h types)"

fun setter_store :: "hooks \<Rightarrow> pytype list \<Rightarrow> setter \<Rightarrow> traceback \<Rightarrow> hooks" where
  "setter_store h [] func caller = h"
| "setter_store h (ty # types) func caller =
     setter_store
       (h\<lparr>CONFIGURE_REGISTRY := (CONFIGURE_REGISTRY h)(ty \<mapsto> func),
          CONFIGURE_FROM := (CONFIGURE_FROM h)(ty \<mapsto> caller)\<rparr>)
       types func caller"

definition config_setter ::
  "hooks \<Rightarrow> pytype list \<Rightarrow> setter option \<Rightarrow> bool \<Rightarrow> traceback
    \<Rightarrow> (setter_decorator, setter) registration" where
  "config_setter h types func overwrite caller =
     (case (if \<not> overwrite then setter_conflict h types else None) of
        Some e \<Rightarrow> Raised e
      | None \<Rightarrow>
          (case func of
             None \<Rightarrow> Decorator (SetterDecorator types)
           | Some f \<Rightarrow> Registered f (setter_store h types f caller)))"


section \<open>The interpreter's environment\<close>

text \<open>
  A module, as the library reads it: \<open>__all__\<close> when the module has one, and the pairs
  \<open>(name, getattr(module, name))\<close> for the names of \<open>dir(module)\<close>.
\<close>

record pymodule =
  module_all :: "string list option"
  module_attrs :: "(string \<times> pyval) list"

definition module_dir :: "pymodule \<Rightarrow> string list" where
  "module_dir mdl = map fst (module_attrs mdl)"

definition module_getattr :: "pymodule \<Rightarrow> string \<Rightarrow> pyval option" where
  "module_getattr mdl attr = map_of (module_attrs mdl) attr"

definition module_hasattr :: "pymodule \<Rightarrow> string \<Rightarrow> bool" where
  "module_hasattr mdl attr = (module_getattr mdl attr \<noteq> None)"

text \<open>
  What the library asks of the interpreter: \<open>sys.modules\<close>; what
  \<open>importlib.import_module\<close> finds for a module that is not loaded yet; the modules
  \<open>builtins\<close> and \<open>datetime\<close>; the class attribute \<open>wrapped\<close> of a class; whether a
  class overrides \<open>get_config\<close>, and then what that method returns; the class methods
  \<open>is_unconfigured_property\<close> and \<open>get_property_type\<close> of a class; \<open>strftime\<close> and
  \<open>strptime\<close>; the order in which a set made of given elements iterates (in CPython the
  order of the hash table); and calling a class on one argument. The decoders that build
  instances and assign attributes (the class method \<open>configure\<close> of a class that
  implements \<open>Configurable\<close>, and \<open>WrapAutoConfig.configure\<close>) are taken from the
  environment too. The environment is the one at the time of the call: an import is
  modelled by the module it returns.
\<close>

record interpreter =
  sys_modules :: "string \<rightharpoonup> pymodule"
  importable :: "string \<rightharpoonup> pymodule"
  builtins :: pymodule
  datetime :: pymodule
  class_wrapped :: "pytype \<Rightarrow> pyval option"
  class_overrides_get_config :: "pytype \<Rightarrow> bool"
  class_get_config :: "pyval \<Rightarrow> string option \<Rightarrow> error + pyval"
  class_configure :: "pytype \<Rightarrow> pyval \<Rightarrow> pyval \<Rightarrow> string option \<Rightarrow> error + pyval"
  wrap_configure :: "WrapAutoConfig \<Rightarrow> pyval \<Rightarrow> pyval \<Rightarrow> string option \<Rightarrow> error + pyval"
  class_is_unconfigured_property :: "pytype \<Rightarrow> string \<Rightarrow> bool"
  class_get_property_type :: "pytype \<Rightarrow> string \<Rightarrow> pytype option"
  strftime :: "pyval \<Rightarrow> string \<Rightarrow> error + string"
  strptime :: "pyval \<Rightarrow> pyval \<Rightarrow> error + pyval"
  set_order :: "pyval list \<Rightarrow> pyval list"
  construct :: "pytype \<Rightarrow> pyval \<Rightarrow> error + pyval"

definition import_module :: "interpreter \<Rightarrow> string \<Rightarrow> error + pymodule" where
  "import_module env module_name =
     (case sys_modules env module_name of
        Some mdl \<Rightarrow> Inr mdl
      | None \<Rightarrow>
          (case importable env module_name of
             Some mdl \<Rightarrow> Inr mdl
           | None \<Rightarrow> Inl (ImportError module_name)))"

section \<open>Context: the registry of locatable types and the access policy\<close>

record Context =
  ctx_name :: string
  registry :: "(string \<times> string) \<rightharpoonup> pytype"
  registered_from :: "(string \<times> string) \<rightharpoonup> traceback"
  location_map :: "pytype \<rightharpoonup> (string \<times> string)"
  all_modules_allowed_by_default :: bool
  imported_modules_allowed_by_default :: bool
  public_classes_allowed_by_default :: bool
  specifically_allowed_modules :: "string set"
  specifically_denied_modules :: "string set"
  specifically_allowed_classes :: "(string \<times> string) set"
  specifically_denied_classes :: "(string \<times> string) set"

text \<open>
  The names \<open>n\<close> of \<open>dir(module)\<close> with \<open>not n.startswith('_')\<close> and
  \<open>isinstance(getattr(module, n), type)\<close>.
\<close>

definition public_type_names :: "pymodule \<Rightarrow> string list" where
  "public_type_names mdl =
     filter (\<lambda>n. \<not> startswith_underscore n \<and>
                 (case module_getattr mdl n of Some (PType _) \<Rightarrow> True | _ \<Rightarrow> False))
       (module_dir mdl)"

text \<open>\<open>Context.__init__\<close>\<close>

definition Context_init :: "interpreter \<Rightarrow> string \<Rightarrow> Context" where
  "Context_init env nm =
     \<lparr>ctx_name = nm,
      registry = Map.empty,
      registered_from = Map.empty,
      location_map = Map.empty,
      all_modules_allowed_by_default = False,
      imported_modules_allowed_by_default = False,
      public_classes_allowed_by_default = False,
      specifically_allowed_modules = {''builtins''},
      specifically_denied_modules = {},
      specifically_allowed_classes =
        insert (''abc'', ''ABCMeta'')
          (set (map (Pair ''builtins'') (public_type_names (builtins env))) \<union>
           set (map (Pair ''datetime'') (public_type_names (datetime env)))),
      specifically_denied_classes = {}\<rparr>"

definition module_access_is_allowed :: "Context \<Rightarrow> interpreter \<Rightarrow> string \<Rightarrow> bool" where
  "module_access_is_allowed self env module_name =
     (if module_name \<in> specifically_denied_modules self then False
      else if module_name \<in> specifically_allowed_modules self then True
      else if imported_modules_allowed_by_default self then
        all_modules_allowed_by_default self \<or> module_name \<in> dom (sys_modules env)
      else False)"

definition get_module :: "Context \<Rightarrow> interpreter \<Rightarrow> string \<Rightarrow> bool \<Rightarrow> error + pymodule option" where
  "get_module self env module_name load_module =
     (if \<not> module_access_is_allowed self env module_name then Inr None
      else if load_module then map_sum id Some (import_module env module_name)
      else Inr (sys_modules env module_name))"

definition get_public_names :: "pymodule \<Rightarrow> string list" where
  "get_public_names mdl =
     (let listing = (case module_all mdl of Some names \<Rightarrow> names | None \<Rightarrow> module_dir mdl)
      in filter (\<lambda>n. module_hasattr mdl n \<and> \<not> startswith_underscore n) listing)"

definition class_access_is_allowed ::
  "Context \<Rightarrow> interpreter \<Rightarrow> string \<Rightarrow> string \<Rightarrow> bool \<Rightarrow> error + bool" where
  "class_access_is_allowed self env module_name class_name load_module =
     (if (module_name, class_name) \<in> specifically_denied_classes self then Inr False
      else if (module_name, class_name) \<in> specifically_allowed_classes self then Inr True
      else if \<not> public_classes_allowed_by_default self then Inr False
      else
        (case get_module self env module_name load_module of
           Inl e \<Rightarrow> Inl e
         | Inr None \<Rightarrow> Inr False
         | Inr (Some mdl) \<Rightarrow> Inr (class_name \<in> set (get_public_names mdl))))"

definition get_type ::
  "Context \<Rightarrow> interpreter \<Rightarrow> string \<Rightarrow> string \<Rightarrow> bool \<Rightarrow> error + pytype" where
  "get_type self env module_name class_name load_module =
     (let key = (module_name, class_name) in
      case registry self key of
        Some ty \<Rightarrow> Inr ty
      | None \<Rightarrow>
          (case class_access_is_allowed self env module_name class_name load_module of
             Inl e \<Rightarrow> Inl e
           | Inr False \<Rightarrow>
               Inl (AccessDenied (PStr class_name) (PStr module_name) (ctx_name self))
           | Inr True \<Rightarrow>
               (case import_module env module_name of
                  Inl e \<Rightarrow> Inl e
                | Inr mdl \<Rightarrow>
                    (case module_getattr mdl class_name of
                       None \<Rightarrow> Inl (AttributeError class_name)
                     | Some (PType ty) \<Rightarrow> Inr ty
                     | Some result \<Rightarrow> Inl (TypeError result)))))"

definition locate :: "Context \<Rightarrow> interpreter \<Rightarrow> pytype \<Rightarrow> error + (string \<times> string)" where
  "locate self env ty =
     (case location_map self ty of
        Some loc \<Rightarrow> Inr loc
      | None \<Rightarrow>
          (case get_type self env (type_module ty) (type_name ty) False of
             Inl e \<Rightarrow> Inl e
           | Inr found \<Rightarrow>
               if found \<noteq> ty then Inl (NotAccessible ty (ctx_name self))
               else Inr (type_module ty, type_name ty)))"

subsection \<open>Registration\<close>

definition is_configurable :: "hooks \<Rightarrow> pytype \<Rightarrow> bool" where
  "is_configurable h ty =
     (issubclass ty Configurable_t \<or>
      (ty \<in> dom (GET_CONFIG_REGISTRY h) \<and> ty \<in> dom (CONFIGURE_REGISTRY h)))"

text \<open>
  \<open>WrapAutoConfig.__post_init__\<close>: the two bound methods are registered as hooks of the
  wrapped type. A raise of the second call leaves the first registration in place.
\<close>

definition WrapAutoConfig_post_init ::
  "hooks \<Rightarrow> WrapAutoConfig \<Rightarrow> traceback \<Rightarrow> error option \<times> hooks" where
  "WrapAutoConfig_post_init h self caller =
     (case config_getter h [self_wrapped self] (self_typed self) (Some (WrapGetConfig self))
             False caller of
        Raised e \<Rightarrow> (Some e, h)
      | Decorator _ \<Rightarrow> (None, h)
      | Registered _ h1 \<Rightarrow>
          (case config_setter h1 [self_wrapped self] (Some (WrapConfigure self)) False caller of
             Raised e \<Rightarrow> (Some e, h1)
           | Decorator _ \<Rightarrow> (None, h1)
           | Registered _ h2 \<Rightarrow> (None, h2)))"

definition auto_config ::
  "hooks \<Rightarrow> pytype \<Rightarrow> bool \<Rightarrow> string list option \<Rightarrow> (string \<times> pytype) list option
    \<Rightarrow> traceback \<Rightarrow> error option \<times> hooks" where
  "auto_config h ty typed unconfigured_properties property_types caller =
     WrapAutoConfig_post_init h
       \<lparr>self_wrapped = ty, self_typed = typed,
        self_unconfigured_properties = unconfigured_properties,
        self_property_types = property_types,
        self_init_args = None, self_init_kwargs = None\<rparr> caller"

text \<open>
  The first statement of the loop body of \<open>Context.register\<close>: a subclass of
  \<open>WrapAutoConfig\<close> stands for the type it wraps.
\<close>

definition wrapped_type :: "interpreter \<Rightarrow> pytype \<Rightarrow> error + pytype" where
  "wrapped_type env ty =
     (case class_wrapped env ty of
        None \<Rightarrow> Inl (AttributeError ''wrapped'')
      | Some (PType w) \<Rightarrow> Inr w
      | Some _ \<Rightarrow> Inl AssertionError)"

text \<open>
  One round of the loop of \<open>Context.register\<close>. The state is the hook registry (which
  \<open>auto_config\<close> writes) and the context; a raise leaves both as they are at that point.
\<close>

definition registration_key :: "pytype \<Rightarrow> string option \<Rightarrow> string option \<Rightarrow> string \<times> string" where
  "registration_key ty module_name class_name =
     ((case module_name of None \<Rightarrow> type_module ty | Some m \<Rightarrow> m),
      (case class_name of None \<Rightarrow> type_name ty | Some c \<Rightarrow> c))"

text \<open>\<open>del self.location_map[self.registry[key]]\<close>, for a key of the registry.\<close>

definition forget_location :: "Context \<Rightarrow> string \<times> string \<Rightarrow> error + Context" where
  "forget_location self key =
     (case registry self key of
        None \<Rightarrow> Inl (KeyError (PTuple [PStr (fst key), PStr (snd key)]))
      | Some old \<Rightarrow>
          if old \<in> dom (location_map self)
          then Inr (self\<lparr>location_map := (location_map self)(old := None)\<rparr>)
          else Inl (KeyError (PType old)))"

text \<open>
  The first statement of the loop body (\<open>if issubclass(type_, WrapAutoConfig): ... elif
  auto and not is_configurable(type_): ...\<close>): what it raises, the hook registry after
  it and the type that is registered.
\<close>

definition register_prepare ::
  "interpreter \<Rightarrow> bool \<Rightarrow> traceback \<Rightarrow> pytype \<Rightarrow> hooks \<Rightarrow> error option \<times> hooks \<times> pytype" where
  "register_prepare env auto caller ty0 h =
     (if issubclass ty0 WrapAutoConfig_t then
        (case wrapped_type env ty0 of Inl e \<Rightarrow> (Some e, h, ty0) | Inr w \<Rightarrow> (None, h, w))
      else if auto \<and> \<not> is_configurable h ty0 then
        (case auto_config h ty0 True None None caller of (r, h') \<Rightarrow> (r, h', ty0))
      else (None, h, ty0))"

definition register_entry ::
  "interpreter \<Rightarrow> bool \<Rightarrow> bool \<Rightarrow> traceback \<Rightarrow> pytype \<times> string option \<times> string option
    \<Rightarrow> hooks \<times> Context \<Rightarrow> error option \<times> hooks \<times> Context" where
  "register_entry env overwrite auto caller entry st =
     (case (entry, st) of ((ty0, module_name, class_name), (h, self)) \<Rightarrow>
      case register_prepare env auto caller ty0 h of
        (Some e, h', ty) \<Rightarrow> (Some e, h', self)
      | (None, h', ty) \<Rightarrow>
          (let key = registration_key ty module_name class_name in
           if \<not> (overwrite \<or> key \<notin> dom (registry self) \<or> registry self key = Some ty) then
             (case registered_from self key of
                None \<Rightarrow> (Some (KeyError (PTuple [PStr (fst key), PStr (snd key)])), h', self)
              | Some info \<Rightarrow>
                  (Some (NamingConflict (snd key) (fst key) (ctx_name self) info), h', self))
           else
             (case (if overwrite \<and> key \<in> dom (registry self) then forget_location self key
                    else Inr self) of
                Inl e \<Rightarrow> (Some e, h', self)
              | Inr self1 \<Rightarrow>
                  (None, h',
                   self1\<lparr>registry := (registry self1)(key \<mapsto> ty),
                         registered_from := (registered_from self1)(key \<mapsto> caller),
                         location_map := (location_map self1)(ty \<mapsto> key)\<rparr>))))"

fun register_loop ::
  "interpreter \<Rightarrow> bool \<Rightarrow> bool \<Rightarrow> traceback \<Rightarrow> (pytype \<times> string option \<times> string option) list
    \<Rightarrow> hooks \<times> Context \<Rightarrow> error option \<times> hooks \<times> Context" where
  "register_loop env overwrite auto caller [] (h, self) = (None, h, self)"
| "register_loop env overwrite auto caller (entry # entries) (h, self) =
     (case register_entry env overwrite auto caller entry (h, self) of
        (Some e, st) \<Rightarrow> (Some e, st)
      | (None, st) \<Rightarrow> register_loop env overwrite auto caller entries st)"

text \<open>\<open>Context.register\<close> called with one type (\<open>isinstance(type_, type)\<close>).\<close>

definition register ::
  "interpreter \<Rightarrow> hooks \<times> Context \<Rightarrow> pytype \<Rightarrow> string option \<Rightarrow> string option \<Rightarrow> bool \<Rightarrow> bool
    \<Rightarrow> traceback \<Rightarrow> error option \<times> hooks \<times> Context" where
  "register env st ty module_name class_name overwrite auto caller =
     register_loop env overwrite auto caller [(ty, module_name, class_name)] st"

text \<open>
  \<open>Context.register\<close> called with a sequence of types: \<open>module_name\<close> is None, one name
  for all, or a sequence of names; \<open>class_name\<close> is None or a sequence (one string fails
  the assertion).
\<close>

datatype names = NoName | OneName string | Names "string option list"

definition register_types ::
  "interpreter \<Rightarrow> hooks \<times> Context \<Rightarrow> pytype list \<Rightarrow> names \<Rightarrow> names \<Rightarrow> bool \<Rightarrow> bool
    \<Rightarrow> traceback \<Rightarrow> error option \<times> hooks \<times> Context" where
  "register_types env st types module_name class_name overwrite auto caller =
     (let module_names =
            (case module_name of
               NoName \<Rightarrow> Some (replicate (length types) None)
             | OneName m \<Rightarrow> Some (replicate (length types) (Some m))
             | Names ms \<Rightarrow> Some ms);
          class_names =
            (case class_name of
               NoName \<Rightarrow> Some (replicate (length types) None)
             | OneName c \<Rightarrow> None
             | Names cs \<Rightarrow> Some cs)
      in
      case (module_names, class_names) of
        (Some ms, Some cs) \<Rightarrow>
          if length ms = length types \<and> length cs = length types
          then register_loop env overwrite auto caller (zip types (zip ms cs)) st
          else (Some AssertionError, st)
      | _ \<Rightarrow> (Some AssertionError, st))"

section \<open>The boxing protocol\<close>

text \<open>\<open>CONTEXTS\<close> and \<open>get_context(name)\<close> (with \<open>add=False\<close>, which writes nothing).\<close>

type_synonym contexts = "string option \<rightharpoonup> Context"

definition get_context :: "contexts \<Rightarrow> string option \<Rightarrow> error + Context" where
  "get_context CONTEXTS nm =
     (case CONTEXTS nm of
        Some ctx \<Rightarrow> Inr ctx
      | None \<Rightarrow> Inl (KeyError (case nm of None \<Rightarrow> PNone | Some n \<Rightarrow> PStr n)))"

text \<open>\<open>get_context(name, add=True)\<close>: the context and the new \<open>CONTEXTS\<close>.\<close>

definition get_context_add ::
  "interpreter \<Rightarrow> contexts \<Rightarrow> string \<Rightarrow> Context \<times> contexts" where
  "get_context_add env CONTEXTS nm =
     (case CONTEXTS (Some nm) of
        Some ctx \<Rightarrow> (ctx, CONTEXTS)
      | None \<Rightarrow> (Context_init env nm, CONTEXTS(Some nm \<mapsto> Context_init env nm)))"

text \<open>\<open>config[key]\<close> for a dict \<open>config\<close> and a string \<open>key\<close>.\<close>

fun dict_lookup :: "pyval \<Rightarrow> string \<Rightarrow> pyval option" where
  "dict_lookup (PDict items) key = map_of items (PStr key)"
| "dict_lookup _ key = None"

text \<open>
  \<open>isinstance(config, dict) and config.keys() == {'__module__', '__class__', '__instance__'}\<close>
\<close>

fun has_box_keys :: "pyval \<Rightarrow> bool" where
  "has_box_keys (PDict items) =
     (set (map fst items) = {PStr ''__module__'', PStr ''__class__'', PStr ''__instance__''})"
| "has_box_keys _ = False"

definition boxed :: "string \<Rightarrow> string \<Rightarrow> pyval \<Rightarrow> pyval" where
  "boxed module_name class_name config =
     PDict [(PStr ''__module__'', PStr module_name), (PStr ''__class__'', PStr class_name),
            (PStr ''__instance__'', config)]"

definition box_type ::
  "contexts \<Rightarrow> interpreter \<Rightarrow> pytype \<Rightarrow> pyval \<Rightarrow> string option \<Rightarrow> error + pyval" where
  "box_type CONTEXTS env ty config context =
     (case get_context CONTEXTS context of
        Inl e \<Rightarrow> Inl e
      | Inr ctx \<Rightarrow>
          (case locate ctx env ty of
             Inl e \<Rightarrow> Inl e
           | Inr (module_name, class_name) \<Rightarrow>
               if has_box_keys config \<and>
                  dict_lookup config ''__module__'' = Some (PStr module_name) \<and>
                  dict_lookup config ''__class__'' = Some (PStr class_name)
               then Inr config
               else Inr (boxed module_name class_name config)))"

text \<open>
  Whether \<open>hash(v)\<close> succeeds, and \<open>get_type\<close> on the two tags of a dict with the three
  keys. The tags of a boxed value are strings. Tags that are not strings are in no
  registry, in no allow list and among no module's names, so that access is denied, unless
  one of them cannot be hashed (the test \<open>key in self.registry\<close> raises then).
\<close>

fun hashable :: "pyval \<Rightarrow> bool" where
  "hashable (PList _) = False"
| "hashable (PSet _) = False"
| "hashable (PDict _) = False"
| "hashable (PTuple xs) = list_all hashable xs"
| "hashable _ = True"

definition get_type_of_tags :: "Context \<Rightarrow> interpreter \<Rightarrow> pyval \<Rightarrow> pyval \<Rightarrow> error + pytype" where
  "get_type_of_tags self env module_tag class_tag =
     (case (module_tag, class_tag) of
        (PStr module_name, PStr class_name) \<Rightarrow> get_type self env module_name class_name False
      | _ \<Rightarrow>
          if hashable module_tag \<and> hashable class_tag
          then Inl (AccessDenied class_tag module_tag (ctx_name self))
          else Inl (TypeError (PTuple [module_tag, class_tag])))"

definition unbox_type ::
  "contexts \<Rightarrow> interpreter \<Rightarrow> pyval \<Rightarrow> string option \<Rightarrow> error + (pytype \<times> pyval)" where
  "unbox_type CONTEXTS env config context =
     (if has_box_keys config then
        (case get_context CONTEXTS context of
           Inl e \<Rightarrow> Inl e
         | Inr ctx \<Rightarrow>
             (case (dict_lookup config ''__module__'', dict_lookup config ''__class__'',
                    dict_lookup config ''__instance__'') of
                (Some module_tag, Some class_tag, Some inner) \<Rightarrow>
                  (case get_type_of_tags ctx env module_tag class_tag of
                     Inl e \<Rightarrow> Inl e
                   | Inr ty \<Rightarrow> Inr (ty, inner))
              | _ \<Rightarrow> Inl (KeyError config)))
      else Inr (py_type config, config))"

section \<open>The dispatch layer: \<open>get_config\<close> and \<open>configure\<close>\<close>


text \<open>
  \<open>callable(v)\<close> and \<open>isinstance(v, type)\<close>. Instances of classes that define
  \<open>__call__\<close> are not modelled.
\<close>

fun callable :: "pyval \<Rightarrow> bool" where
  "callable (PCallable _) = True"
| "callable (PType _) = True"
| "callable _ = False"

fun is_type :: "pyval \<Rightarrow> bool" where
  "is_type (PType _) = True"
| "is_type _ = False"


text \<open>
  The body of the loop \<open>for property_name in dir(instance)\<close> that
  \<open>AutoConfigured.get_config\<close> and \<open>WrapAutoConfig.get_config\<close> share: \<open>None\<close> for
  \<open>continue\<close>, else the entry stored by \<open>config[property_name] = property_config\<close>.
  \<open>encoded\<close> is \<open>get_config(property_value, context=context)\<close>. For a property with a
  declared type the source assigns the result of \<open>unbox_type\<close>, a tuple of the type and
  the configuration, to \<open>property_config\<close>.
\<close>

definition property_entry ::
  "contexts \<Rightarrow> interpreter \<Rightarrow> string option \<Rightarrow> (string \<Rightarrow> bool) \<Rightarrow> (string \<Rightarrow> pytype option)
    \<Rightarrow> string \<Rightarrow> pyval \<Rightarrow> (error + pyval) \<Rightarrow> error + (pyval \<times> pyval) option" where
  "property_entry CONTEXTS env context is_unconfigured_property get_property_type
      property_name property_value encoded =
     (if is_unconfigured_property property_name then Inr None
      else if callable property_value \<and> \<not> is_type property_value then Inr None
      else
        (case encoded of
           Inl e \<Rightarrow> Inl e
         | Inr property_config \<Rightarrow>
             (case get_property_type property_name of
                None \<Rightarrow> Inr (Some (PStr property_name, property_config))
              | Some property_type \<Rightarrow>
                  (case unbox_type CONTEXTS env property_config context of
                     Inl e \<Rightarrow> Inl e
                   | Inr (ty, config) \<Rightarrow>
                       Inr (Some (PStr property_name, PTuple [PType ty, config]))))))"

text \<open>\<open>all(isinstance(key, str) for key in mapping)\<close>\<close>

fun all_str_keys :: "(pyval \<times> pyval) list \<Rightarrow> bool" where
  "all_str_keys [] = True"
| "all_str_keys ((PStr _, _) # items) = all_str_keys items"
| "all_str_keys _ = False"






















subsection \<open>The registrations made when the module is loaded\<close>




definition empty_hooks :: hooks where
  "empty_hooks =
     \<lparr>GET_CONFIG_REGISTRY = Map.empty, CONFIGURE_REGISTRY = Map.empty,
      GET_CONFIG_FROM = Map.empty, CONFIGURE_FROM = Map.empty\<rparr>"



subsection \<open>Plain values\<close>

text \<open>
  The values of the round-trip property: a scalar (None, bool, int, float, str), a list of
  such values, or a dict with string keys whose values are such values. The keys of a dict
  are distinct, as in every Python dict. \<open>unreserved\<close>: no dict in the value has exactly
  the three keys of a boxed value.
\<close>

fun plain :: "pyval \<Rightarrow> bool" where
  "plain PNone = True"
| "plain (PBool b) = True"
| "plain (PInt i) = True"
| "plain (PFloat q) = True"
| "plain (PStr s) = True"
| "plain (PList xs) = list_all plain xs"
| "plain (PDict items) =
     (all_str_keys items \<and> distinct (map fst items) \<and> list_all (\<lambda>(k, v). plain v) items)"
| "plain _ = False"



section \<open>A concrete environment\<close>

text \<open>
  A small interpreter state for evaluating the model: \<open>builtins\<close>, \<open>datetime\<close> and \<open>abc\<close>
  are loaded (the library imports them), \<open>json\<close> can be imported and is not loaded. The
  listings of the modules are cut down to a few names.
\<close>

definition example_builtins :: pymodule where
  "example_builtins =
     \<lparr>module_all = None,
      module_attrs =
        [(''__name__'', PStr ''builtins''), (''bool'', PType bool_t), (''dict'', PType dict_t),
         (''float'', PType float_t), (''frozenset'', PType frozenset_t), (''int'', PType int_t),
         (''len'', PCallable 0), (''list'', PType list_t), (''object'', PType object_t),
         (''set'', PType set_t), (''str'', PType str_t), (''tuple'', PType tuple_t),
         (''type'', PType type_t)]\<rparr>"

definition example_datetime :: pymodule where
  "example_datetime =
     \<lparr>module_all = None,
      module_attrs =
        [(''MAXYEAR'', PInt 9999), (''__name__'', PStr ''datetime''), (''date'', PType date_t),
         (''datetime'', PType datetime_t)]\<rparr>"

definition example_abc :: pymodule where
  "example_abc =
     \<lparr>module_all = None,
      module_attrs = [(''ABC'', PType ABC_t), (''ABCMeta'', PType ABCMeta_t)]\<rparr>"

definition example_json :: pymodule where
  "example_json =
     \<lparr>module_all = Some [''dumps'', ''loads''],
      module_attrs = [(''dumps'', PCallable 1), (''loads'', PCallable 2)]\<rparr>"

definition example_env :: interpreter where
  "example_env =
     \<lparr>sys_modules = [''builtins'' \<mapsto> example_builtins, ''datetime'' \<mapsto> example_datetime,
                     ''abc'' \<mapsto> example_abc],
      importable = [''json'' \<mapsto> example_json],
      builtins = example_builtins,
      datetime = example_datetime,
      class_wrapped = (\<lambda>_. None),
      class_overrides_get_config = (\<lambda>_. False),
      class_get_config = (\<lambda>_ _. Inr (PDict [])),
      class_configure = (\<lambda>_ _ instance _. Inr instance),
      wrap_configure = (\<lambda>_ _ instance _. Inr instance),
      class_is_unconfigured_property = (\<lambda>_. startswith_underscore),
      class_get_property_type = (\<lambda>_ _. None),
      strftime = (\<lambda>_ _. Inr []),
      strptime = (\<lambda>_ _. Inl ValueError),
      set_order = (\<lambda>xs. xs),
      construct = (\<lambda>_ v. Inl (TypeError v))\<rparr>"

text \<open>\<open>Context('default')\<close>, the value of \<open>CONTEXTS[None]\<close> when the module is loaded.\<close>

definition default_context :: Context where
  "default_context = Context_init example_env ''default''"

text \<open>Two classes of an application with the same module and name, and places in its code.\<close>

definition Point_t :: pytype where "Point_t = PyType ''app'' ''Point'' 100 [object_t]"
definition Point2_t :: pytype where "Point2_t = PyType ''app'' ''Point'' 101 [object_t]"

definition line :: "nat \<Rightarrow> traceback" where
  "line n = \<lparr>filename = ''app.py'', lineno = n\<rparr>"

text \<open>The default context after \<open>register(Point)\<close> at line 10.\<close>

definition registered_once :: Context where
  "registered_once =
     snd (snd (register example_env (empty_hooks, default_context)
                 Point_t None None False False (line 10)))"

text \<open>A context that denies the class \<open>builtins.int\<close> and the module \<open>os\<close>.\<close>

definition locked_context :: Context where
  "locked_context =
     default_context\<lparr>specifically_denied_classes := {(''builtins'', ''int'')},
                     specifically_denied_modules := {''os''}\<rparr>"

text \<open>\<open>CONTEXTS\<close> when the module is loaded.\<close>

definition example_contexts :: contexts where
  "example_contexts = [None \<mapsto> default_context]"







text \<open>A context that denies the module \<open>builtins\<close> (whose classes stay allowed by pair).\<close>

definition builtins_denied_context :: Context where
  "builtins_denied_context = default_context\<lparr>specifically_denied_modules := {''builtins''}\<rparr>"

section \<open>Module reachability\<close>

lemma module_access_is_allowed_iff:
  "module_access_is_allowed self env m \<longleftrightarrow>
     m \<notin> specifically_denied_modules self \<and>
     (m \<in> specifically_allowed_modules self \<or>
      imported_modules_allowed_by_default self \<and>
        (all_modules_allowed_by_default self \<or> m \<in> dom (sys_modules env)))"
  by (simp add: module_access_is_allowed_def)

text \<open>
  C2. The claim: a module that is neither denied nor allowed is reachable whenever the
  flag \<open>all_modules_allowed_by_default\<close> is set. The code reads that flag only inside the
  branch of \<open>imported_modules_allowed_by_default\<close>: in the default context with
  \<open>all_modules_allowed_by_default = True\<close> and nothing else changed, the module \<open>json\<close>
  (not denied, not allowed) is not reachable.
\<close>

theorem all_modules_flag_alone_denies:
  "module_access_is_allowed
     (default_context\<lparr>all_modules_allowed_by_default := True\<rparr>) example_env ''json'' = False"
  by (simp add: module_access_is_allowed_def default_context_def Context_init_def)

section \<open>Access control\<close>

lemma default_allows_builtin_classes:
  "(''builtins'', ''int'') \<in> specifically_allowed_classes default_context"
  "(''builtins'', ''str'') \<in> specifically_allowed_classes default_context"
  "(''os'', ''path'') \<notin> specifically_allowed_classes default_context"
  by (simp_all add: default_context_def Context_init_def public_type_names_def
      module_dir_def module_getattr_def example_env_def example_builtins_def
      example_datetime_def)

text \<open>
  C9, as stated, fails: a specifically denied module does not fail regardless of every
  allow list. The class check returns True for a specifically allowed pair before it
  looks at the module: with the module \<open>builtins\<close> denied, the class \<open>builtins.int\<close>
  (allowed by pair in every new context) passes the class check and is resolved.
\<close>

theorem allowed_class_of_denied_module_is_reachable:
  "''builtins'' \<in> specifically_denied_modules builtins_denied_context \<and>
   \<not> module_access_is_allowed builtins_denied_context example_env ''builtins'' \<and>
   class_access_is_allowed builtins_denied_context example_env ''builtins'' ''int'' False =
     Inr True \<and>
   get_type builtins_denied_context example_env ''builtins'' ''int'' False = Inr int_t"
proof -
  have allowed: "(''builtins'', ''int'') \<in> specifically_allowed_classes builtins_denied_context"
    using default_allows_builtin_classes(1) by (simp add: builtins_denied_context_def)
  have rest: "specifically_denied_classes builtins_denied_context = {}"
    "registry builtins_denied_context (''builtins'', ''int'') = None"
    "specifically_denied_modules builtins_denied_context = {''builtins''}"
    by (simp_all add: builtins_denied_context_def default_context_def Context_init_def)
  have access: "class_access_is_allowed builtins_denied_context example_env
      ''builtins'' ''int'' False = Inr True"
    using allowed rest by (simp add: class_access_is_allowed_def)
  have found: "module_getattr example_builtins ''int'' = Some (PType int_t)"
    by (simp add: module_getattr_def example_builtins_def)
  have "import_module example_env ''builtins'' = Inr example_builtins"
    by (simp add: import_module_def example_env_def)
  with access rest found show ?thesis
    by (simp add: get_type_def module_access_is_allowed_def)
qed

text \<open>
  C9, amended. Each check applies its own deny list before its own allow list before the
  default posture. The class check: a specifically denied pair fails; a specifically
  allowed pair that is not denied succeeds, whatever the module lists are (also when its
  module is denied); in both cases the three default flags do not matter. The module
  check: a specifically denied module fails; a specifically allowed module that is not
  denied succeeds; in both cases the default flags do not matter. A denied module makes
  the class check fail for every pair of that module that is not specifically allowed.
  Resolving a pair that is not registered and not accessible fails with the access-denied
  error.
\<close>

theorem access_control_precedence:
  "((m, c) \<in> specifically_denied_classes self \<longrightarrow>
      class_access_is_allowed self env m c load = Inr False) \<and>
   ((m, c) \<notin> specifically_denied_classes self \<and> (m, c) \<in> specifically_allowed_classes self \<longrightarrow>
      class_access_is_allowed self env m c load = Inr True \<and>
      class_access_is_allowed
        (self\<lparr>specifically_allowed_modules := A, specifically_denied_modules := D\<rparr>)
        env m c load = Inr True) \<and>
   (m \<in> specifically_denied_modules self \<longrightarrow> \<not> module_access_is_allowed self env m) \<and>
   (m \<notin> specifically_denied_modules self \<and> m \<in> specifically_allowed_modules self \<longrightarrow>
      module_access_is_allowed self env m) \<and>
   ((m, c) \<in> specifically_denied_classes self \<union> specifically_allowed_classes self \<longrightarrow>
      class_access_is_allowed
        (self\<lparr>all_modules_allowed_by_default := f1, imported_modules_allowed_by_default := f2,
              public_classes_allowed_by_default := f3\<rparr>) env m c load =
      class_access_is_allowed self env m c load) \<and>
   (m \<in> specifically_denied_modules self \<union> specifically_allowed_modules self \<longrightarrow>
      module_access_is_allowed
        (self\<lparr>all_modules_allowed_by_default := f1, imported_modules_allowed_by_default := f2,
              public_classes_allowed_by_default := f3\<rparr>) env m =
      module_access_is_allowed self env m) \<and>
   (m \<in> specifically_denied_modules self \<and> (m, c) \<notin> specifically_allowed_classes self \<longrightarrow>
      class_access_is_allowed self env m c load = Inr False) \<and>
   (registry self (m, c) = None \<and> class_access_is_allowed self env m c load = Inr False \<longrightarrow>
      get_type self env m c load = Inl (AccessDenied (PStr c) (PStr m) (ctx_name self)))"
  by (simp add: class_access_is_allowed_def module_access_is_allowed_def get_type_def
      get_module_def)

theorem access_control_precedence_witness:
  "class_access_is_allowed locked_context example_env ''builtins'' ''int'' False = Inr False \<and>
   class_access_is_allowed locked_context example_env ''builtins'' ''str'' False = Inr True \<and>
   class_access_is_allowed
     (locked_context\<lparr>specifically_allowed_modules := {},
        specifically_denied_modules := {''builtins''}\<rparr>)
     example_env ''builtins'' ''str'' False = Inr True \<and>
   \<not> module_access_is_allowed locked_context example_env ''os'' \<and>
   module_access_is_allowed locked_context example_env ''builtins'' \<and>
   class_access_is_allowed
     (locked_context\<lparr>all_modules_allowed_by_default := True,
        imported_modules_allowed_by_default := True,
        public_classes_allowed_by_default := True\<rparr>) example_env ''builtins'' ''int'' False =
     Inr False \<and>
   \<not> module_access_is_allowed
     (locked_context\<lparr>all_modules_allowed_by_default := True,
        imported_modules_allowed_by_default := True,
        public_classes_allowed_by_default := True\<rparr>) example_env ''os'' \<and>
   class_access_is_allowed locked_context example_env ''os'' ''path'' False = Inr False \<and>
   get_type locked_context example_env ''builtins'' ''int'' False =
     Inl (AccessDenied (PStr ''int'') (PStr ''builtins'') ''default'')"
proof -
  have denied: "(''builtins'', ''int'') \<in> specifically_denied_classes locked_context"
    by (simp add: locked_context_def)
  have allowed: "(''builtins'', ''str'') \<notin> specifically_denied_classes locked_context \<and>
      (''builtins'', ''str'') \<in> specifically_allowed_classes locked_context"
    using default_allows_builtin_classes(2) by (simp add: locked_context_def)
  have mdenied: "''os'' \<in> specifically_denied_modules locked_context"
    by (simp add: locked_context_def)
  have not_allowed: "(''os'', ''path'') \<notin> specifically_allowed_classes locked_context"
    using default_allows_builtin_classes(3) by (simp add: locked_context_def)
  have mallowed: "''builtins'' \<notin> specifically_denied_modules locked_context \<and>
      ''builtins'' \<in> specifically_allowed_modules locked_context"
    by (simp add: locked_context_def default_context_def Context_init_def)
  have unreg: "registry locked_context (''builtins'', ''int'') = None"
    by (simp add: locked_context_def default_context_def Context_init_def)
  have nm: "ctx_name locked_context = ''default''"
    by (simp add: locked_context_def default_context_def Context_init_def)
  note int_case = access_control_precedence
    [where m = "''builtins''" and c = "''int''" and self = locked_context and env = example_env
       and load = False and A = "{}" and D = "{''builtins''}"
       and ?f1.0 = True and ?f2.0 = True and ?f3.0 = True]
  note str_case = access_control_precedence
    [where m = "''builtins''" and c = "''str''" and self = locked_context and env = example_env
       and load = False and A = "{}" and D = "{''builtins''}"
       and ?f1.0 = True and ?f2.0 = True and ?f3.0 = True]
  note os_case = access_control_precedence
    [where m = "''os''" and c = "''path''" and self = locked_context and env = example_env
       and load = False and A = "{}" and D = "{''builtins''}"
       and ?f1.0 = True and ?f2.0 = True and ?f3.0 = True]
  from int_case denied have c1:
    "class_access_is_allowed locked_context example_env ''builtins'' ''int'' False = Inr False"
    by blast
  from str_case allowed have c2:
    "class_access_is_allowed locked_context example_env ''builtins'' ''str'' False = Inr True"
    "class_access_is_allowed
       (locked_context\<lparr>specifically_allowed_modules := {},
          specifically_denied_modules := {''builtins''}\<rparr>)
       example_env ''builtins'' ''str'' False = Inr True"
    by simp_all
  from os_case mdenied have c3: "\<not> module_access_is_allowed locked_context example_env ''os''"
    by blast
  from int_case mallowed have c4: "module_access_is_allowed locked_context example_env ''builtins''"
    by blast
  from int_case denied c1 have c5:
    "class_access_is_allowed
       (locked_context\<lparr>all_modules_allowed_by_default := True,
          imported_modules_allowed_by_default := True,
          public_classes_allowed_by_default := True\<rparr>) example_env ''builtins'' ''int'' False =
     Inr False"
    by simp
  from os_case mdenied c3 have c6:
    "\<not> module_access_is_allowed
       (locked_context\<lparr>all_modules_allowed_by_default := True,
          imported_modules_allowed_by_default := True,
          public_classes_allowed_by_default := True\<rparr>) example_env ''os''"
    by simp
  from os_case mdenied not_allowed have c7:
    "class_access_is_allowed locked_context example_env ''os'' ''path'' False = Inr False"
    by blast
  from int_case unreg c1 nm have c8:
    "get_type locked_context example_env ''builtins'' ''int'' False =
       Inl (AccessDenied (PStr ''int'') (PStr ''builtins'') ''default'')"
    by simp
  from c1 c2 c3 c4 c5 c6 c7 c8 show ?thesis by blast
qed

section \<open>Registration of a type in a context\<close>

lemma register_unfold:
  assumes "register_prepare env auto caller T h = (None, h', U)"
  shows "register env (h, self) T mo co overwrite auto caller =
     (let key = registration_key U mo co in
      if \<not> (overwrite \<or> key \<notin> dom (registry self) \<or> registry self key = Some U) then
        (case registered_from self key of
           None \<Rightarrow> (Some (KeyError (PTuple [PStr (fst key), PStr (snd key)])), h', self)
         | Some info \<Rightarrow>
             (Some (NamingConflict (snd key) (fst key) (ctx_name self) info), h', self))
      else
        (case (if overwrite \<and> key \<in> dom (registry self) then forget_location self key
               else Inr self) of
           Inl e \<Rightarrow> (Some e, h', self)
         | Inr self1 \<Rightarrow>
             (None, h',
              self1\<lparr>registry := (registry self1)(key \<mapsto> U),
                    registered_from := (registered_from self1)(key \<mapsto> caller),
                    location_map := (location_map self1)(U \<mapsto> key)\<rparr>)))"
  using assms
  by (simp add: register_def register_entry_def Let_def split: sum.splits option.splits)

lemma register_raises_in_prepare:
  assumes "register_prepare env auto caller T h = (Some e, h', U)"
  shows "register env (h, self) T mo co overwrite auto caller = (Some e, h', self)"
  using assms by (simp add: register_def register_entry_def)

lemma register_success:
  assumes "register env (h0, self0) T mo co ov au caller = (None, h1, self1)"
    and "register_prepare env au caller T h0 = (p, q, U)"
  shows "registry self1 (registration_key U mo co) = Some U \<and>
         registered_from self1 (registration_key U mo co) = Some caller \<and>
         location_map self1 U = Some (registration_key U mo co)"
proof (cases p)
  case (Some e)
  with assms(2) have "register env (h0, self0) T mo co ov au caller = (Some e, q, self0)"
    by (simp add: register_raises_in_prepare)
  with assms(1) show ?thesis by simp
next
  case None
  with assms(2) have prep: "register_prepare env au caller T h0 = (None, q, U)" by simp
  show ?thesis
    using assms(1) unfolding register_unfold [OF prep]
    by (auto simp add: Let_def forget_location_def
        split: sum.splits option.splits if_splits)
qed

text \<open>
  Outside the amended claim: when the bound type has lost its reverse-lookup entry (the
  type was registered for a second pair and that pair was overwritten), \<open>del
  self.location_map[self.registry[key]]\<close> raises \<open>KeyError\<close> and the binding stays.
\<close>

lemma register_overwrite_without_reverse_entry:
  assumes "register_prepare env auto caller T h = (None, h', U)"
    and "registry self (registration_key U mo co) = Some old"
    and "old \<notin> dom (location_map self)"
  shows "register env (h, self) T mo co True auto caller = (Some (KeyError (PType old)), h', self)"
  using assms(2,3)
  by (simp add: register_unfold [OF assms(1)] Let_def domIff forget_location_def)

lemma example_prepare:
  "register_prepare example_env False caller Point_t h = (None, h, Point_t)"
  "register_prepare example_env False caller Point2_t h = (None, h, Point2_t)"
  by (simp_all add: register_prepare_def Point_t_def Point2_t_def builtin_type_defs)

lemma example_key:
  "registration_key Point_t None None = (''app'', ''Point'')"
  "registration_key Point2_t None None = (''app'', ''Point'')"
  by (simp_all add: registration_key_def Point_t_def Point2_t_def)

lemma registered_once_ok:
  "register example_env (empty_hooks, default_context) Point_t None None False False (line 10) =
     (None, empty_hooks, registered_once)"
  by (simp add: registered_once_def register_unfold [OF example_prepare(1)] example_key Let_def
      default_context_def Context_init_def)

text \<open>
  C6, as stated, fails: the same pair registered twice without \<open>overwrite\<close> raises nothing
  when the type is the same one (\<open>self.registry[key] is type_\<close>).
\<close>

theorem register_same_type_twice_succeeds:
  "fst (register example_env (empty_hooks, registered_once)
          Point_t None None False False (line 20)) = None"
  by (simp add: registered_once_def register_unfold [OF example_prepare(1)] example_key Let_def
      default_context_def Context_init_def)

text \<open>
  C6, amended. A successful registration binds the pair to the type, records the place of
  the call and gives the type its reverse-lookup entry. When a pair is bound, a call of
  \<open>register\<close> for that pair whose first statement raises nothing (it replaces a
  \<open>WrapAutoConfig\<close> subclass by the type it wraps and, with \<open>auto\<close>, registers hooks,
  which stay registered) does this: without \<open>overwrite\<close>, for a type other than the
  bound one, it raises the naming conflict, which carries the recorded place of the
  earlier registration, and leaves the context as it is; for the bound type itself it
  raises nothing. With \<open>overwrite\<close>, when the bound type still has a reverse-lookup entry,
  it succeeds: the pair is bound to the new type with the new place, and the old type, if
  it is another one, has no reverse-lookup entry any more.
\<close>

theorem register_conflict_and_overwrite:
  "(register env (h0, self0) T1 mo1 co1 ov1 au1 caller1 = (None, h1, self1) \<and>
    register_prepare env au1 caller1 T1 h0 = (p, q, U1) \<longrightarrow>
      registry self1 (registration_key U1 mo1 co1) = Some U1 \<and>
      registered_from self1 (registration_key U1 mo1 co1) = Some caller1 \<and>
      location_map self1 U1 = Some (registration_key U1 mo1 co1)) \<and>
   (register_prepare env auto caller T h = (None, h', U) \<and>
    registry self (registration_key U mo co) = Some old \<longrightarrow>
      (old \<noteq> U \<and> registered_from self (registration_key U mo co) = Some info \<longrightarrow>
         register env (h, self) T mo co False auto caller =
           (Some (NamingConflict (snd (registration_key U mo co))
                    (fst (registration_key U mo co)) (ctx_name self) info), h', self)) \<and>
      (old = U \<longrightarrow> fst (register env (h, self) T mo co False auto caller) = None) \<and>
      (old \<in> dom (location_map self) \<longrightarrow>
         (case register env (h, self) T mo co True auto caller of
            (r, h2, self2) \<Rightarrow>
              r = None \<and> h2 = h' \<and>
              registry self2 (registration_key U mo co) = Some U \<and>
              registered_from self2 (registration_key U mo co) = Some caller \<and>
              location_map self2 U = Some (registration_key U mo co) \<and>
              (old \<noteq> U \<longrightarrow> location_map self2 old = None))))"
proof (intro conjI impI)
  assume "register env (h0, self0) T1 mo1 co1 ov1 au1 caller1 = (None, h1, self1) \<and>
    register_prepare env au1 caller1 T1 h0 = (p, q, U1)"
  then have first: "registry self1 (registration_key U1 mo1 co1) = Some U1 \<and>
      registered_from self1 (registration_key U1 mo1 co1) = Some caller1 \<and>
      location_map self1 U1 = Some (registration_key U1 mo1 co1)"
    using register_success by blast
  from first show "registry self1 (registration_key U1 mo1 co1) = Some U1" by simp
  from first show "registered_from self1 (registration_key U1 mo1 co1) = Some caller1" by simp
  from first show "location_map self1 U1 = Some (registration_key U1 mo1 co1)" by simp
next
  let ?key = "registration_key U mo co"
  assume state: "register_prepare env auto caller T h = (None, h', U) \<and>
    registry self ?key = Some old"
  then have prep: "register_prepare env auto caller T h = (None, h', U)"
    and bound: "registry self ?key = Some old"
    by simp_all
  {
    assume "old \<noteq> U \<and> registered_from self ?key = Some info"
    with bound show "register env (h, self) T mo co False auto caller =
        (Some (NamingConflict (snd ?key) (fst ?key) (ctx_name self) info), h', self)"
      by (simp add: register_unfold [OF prep] Let_def domIff)
  }
  {
    assume "old = U"
    with bound show "fst (register env (h, self) T mo co False auto caller) = None"
      by (simp add: register_unfold [OF prep] Let_def)
  }
  {
    assume "old \<in> dom (location_map self)"
    with bound have forget: "forget_location self ?key =
        Inr (self\<lparr>location_map := (location_map self)(old := None)\<rparr>)"
      by (simp add: forget_location_def)
    from bound have "register env (h, self) T mo co True auto caller =
        (None, h',
         self\<lparr>location_map := (location_map self)(old := None),
              registry := (registry self)(?key \<mapsto> U),
              registered_from := (registered_from self)(?key \<mapsto> caller),
              location_map := ((location_map self)(old := None))(U \<mapsto> ?key)\<rparr>)"
      by (simp add: register_unfold [OF prep] Let_def domIff forget)
    then show "case register env (h, self) T mo co True auto caller of
        (r, h2, self2) \<Rightarrow>
          r = None \<and> h2 = h' \<and>
          registry self2 ?key = Some U \<and>
          registered_from self2 ?key = Some caller \<and>
          location_map self2 U = Some ?key \<and>
          (old \<noteq> U \<longrightarrow> location_map self2 old = None)"
      by simp
  }
qed

theorem register_conflict_and_overwrite_witness:
  "register example_env (empty_hooks, default_context) Point_t None None False False (line 10) =
     (None, empty_hooks, registered_once) \<and>
   registry registered_once (''app'', ''Point'') = Some Point_t \<and>
   registered_from registered_once (''app'', ''Point'') = Some (line 10) \<and>
   location_map registered_once Point_t = Some (''app'', ''Point'') \<and>
   Point_t \<noteq> Point2_t \<and>
   register example_env (empty_hooks, registered_once) Point2_t None None False False (line 20) =
     (Some (NamingConflict ''Point'' ''app'' (ctx_name registered_once) (line 10)),
      empty_hooks, registered_once) \<and>
   fst (register example_env (empty_hooks, registered_once)
          Point_t None None False False (line 20)) = None \<and>
   (case register example_env (empty_hooks, registered_once)
           Point2_t None None True False (line 20) of
      (r, h2, self2) \<Rightarrow>
        r = None \<and> h2 = empty_hooks \<and>
        registry self2 (''app'', ''Point'') = Some Point2_t \<and>
        registered_from self2 (''app'', ''Point'') = Some (line 20) \<and>
        location_map self2 Point2_t = Some (''app'', ''Point'') \<and>
        (Point_t \<noteq> Point2_t \<longrightarrow> location_map self2 Point_t = None))"
proof -
  have d: "Point_t \<noteq> Point2_t" by (simp add: Point_t_def Point2_t_def)
  have first: "registry registered_once (''app'', ''Point'') = Some Point_t \<and>
      registered_from registered_once (''app'', ''Point'') = Some (line 10) \<and>
      location_map registered_once Point_t = Some (''app'', ''Point'')"
    using register_conflict_and_overwrite
      [where env = example_env and ?h0.0 = empty_hooks and ?self0.0 = default_context
        and ?T1.0 = Point_t and ?mo1.0 = None and ?co1.0 = None and ?ov1.0 = False
        and ?au1.0 = False and ?caller1.0 = "line 10" and ?h1.0 = empty_hooks
        and ?self1.0 = registered_once and p = None and q = empty_hooks and ?U1.0 = Point_t,
       THEN conjunct1]
      registered_once_ok example_prepare(1) [of "line 10" empty_hooks] example_key(1)
    by simp
  then have reg: "registry registered_once (registration_key Point2_t None None) = Some Point_t"
    and reg': "registry registered_once (registration_key Point_t None None) = Some Point_t"
    and frm: "registered_from registered_once (registration_key Point2_t None None) = Some (line 10)"
    and loc: "Point_t \<in> dom (location_map registered_once)"
    by (simp_all add: example_key domIff)
  note second = register_conflict_and_overwrite
      [where env = example_env and auto = False and caller = "line 20" and T = Point2_t
        and h = empty_hooks and h' = empty_hooks and U = Point2_t and self = registered_once
        and mo = None and co = None and old = Point_t and info = "line 10",
       THEN conjunct2, THEN mp, OF conjI [OF example_prepare(2) reg]]
  note same = register_conflict_and_overwrite
      [where env = example_env and auto = False and caller = "line 20" and T = Point_t
        and h = empty_hooks and h' = empty_hooks and U = Point_t and self = registered_once
        and mo = None and co = None and old = Point_t,
       THEN conjunct2, THEN mp, OF conjI [OF example_prepare(1) reg'],
       THEN conjunct2, THEN conjunct1, THEN mp, OF refl]
  from second have conflict:
    "register example_env (empty_hooks, registered_once) Point2_t None None False False (line 20) =
     (Some (NamingConflict ''Point'' ''app'' (ctx_name registered_once) (line 10)),
      empty_hooks, registered_once)"
    using d frm by (simp add: example_key)
  from second loc have overwrite:
    "case register example_env (empty_hooks, registered_once)
           Point2_t None None True False (line 20) of
      (r, h2, self2) \<Rightarrow>
        r = None \<and> h2 = empty_hooks \<and>
        registry self2 (''app'', ''Point'') = Some Point2_t \<and>
        registered_from self2 (''app'', ''Point'') = Some (line 20) \<and>
        location_map self2 Point2_t = Some (''app'', ''Point'') \<and>
        (Point_t \<noteq> Point2_t \<longrightarrow> location_map self2 Point_t = None)"
    by (simp add: example_key)
  show ?thesis
    using registered_once_ok first d conflict same overwrite by blast
qed

section \<open>Boxing and unboxing\<close>

lemma default_context_resolves_int:
  "get_type default_context example_env ''builtins'' ''int'' False = Inr int_t"
  by (simp add: get_type_def class_access_is_allowed_def default_context_def Context_init_def
      public_type_names_def module_dir_def module_getattr_def example_env_def
      example_builtins_def import_module_def)

lemma default_context_locates_int:
  "locate default_context example_env int_t = Inr (''builtins'', ''int'')"
proof -
  have "location_map default_context int_t = None"
    by (simp add: default_context_def Context_init_def)
  moreover have "type_module int_t = ''builtins''" "type_name int_t = ''int''"
    by (simp_all add: int_t_def)
  ultimately show ?thesis
    by (simp add: locate_def default_context_resolves_int)
qed

lemma example_contexts_default: "get_context example_contexts None = Inr default_context"
  by (simp add: get_context_def example_contexts_def)

text \<open>
  C4. A value that is not a dict with exactly the keys \<open>__module__\<close>, \<open>__class__\<close>,
  \<open>__instance__\<close> is returned unchanged with its runtime type (so a dict with any other key
  set is not taken for a boxed value). For a dict with these three keys, the type is the
  one the context resolves for the two tags, and the configuration returned is the value
  under \<open>__instance__\<close>.
\<close>

theorem unbox_type_plain_or_tagged:
  "(\<not> has_box_keys c \<longrightarrow> unbox_type CONTEXTS env c context = Inr (py_type c, c)) \<and>
   (has_box_keys c \<and> get_context CONTEXTS context = Inr ctx \<and>
    dict_lookup c ''__module__'' = Some (PStr m) \<and> dict_lookup c ''__class__'' = Some (PStr k) \<and>
    dict_lookup c ''__instance__'' = Some i \<longrightarrow>
      unbox_type CONTEXTS env c context =
        (case get_type ctx env m k False of Inl e \<Rightarrow> Inl e | Inr ty \<Rightarrow> Inr (ty, i))) \<and>
   (has_box_keys c \<and> unbox_type CONTEXTS env c context = Inr (ty, c') \<longrightarrow>
      dict_lookup c ''__instance__'' = Some c' \<and>
      (\<exists>ctx m k. get_context CONTEXTS context = Inr ctx \<and>
         dict_lookup c ''__module__'' = Some m \<and> dict_lookup c ''__class__'' = Some k \<and>
         get_type_of_tags ctx env m k = Inr ty))"
  by (auto simp add: unbox_type_def get_type_of_tags_def split: sum.splits option.splits)

theorem unbox_type_plain_or_tagged_witness:
  "unbox_type example_contexts example_env (PInt 5) None = Inr (int_t, PInt 5) \<and>
   unbox_type example_contexts example_env (PDict [(PStr ''__module__'', PStr ''builtins'')]) None =
     Inr (dict_t, PDict [(PStr ''__module__'', PStr ''builtins'')]) \<and>
   unbox_type example_contexts example_env (boxed ''builtins'' ''int'' (PInt 5)) None =
     Inr (int_t, PInt 5)"
proof -
  have plain: "\<not> has_box_keys (PInt 5)"
    "\<not> has_box_keys (PDict [(PStr ''__module__'', PStr ''builtins'')])"
    by auto
  have tagged: "has_box_keys (boxed ''builtins'' ''int'' (PInt 5))"
    by (auto simp add: boxed_def)
  have tags: "dict_lookup (boxed ''builtins'' ''int'' (PInt 5)) ''__module__'' = Some (PStr ''builtins'')"
    "dict_lookup (boxed ''builtins'' ''int'' (PInt 5)) ''__class__'' = Some (PStr ''int'')"
    "dict_lookup (boxed ''builtins'' ''int'' (PInt 5)) ''__instance__'' = Some (PInt 5)"
    by (simp_all add: boxed_def)
  have int_case: "unbox_type example_contexts example_env (PInt 5) None =
      Inr (py_type (PInt 5), PInt 5)"
    using plain(1)
    by (rule unbox_type_plain_or_tagged [THEN conjunct1, THEN mp])
  have dict_case:
    "unbox_type example_contexts example_env (PDict [(PStr ''__module__'', PStr ''builtins'')]) None =
      Inr (py_type (PDict [(PStr ''__module__'', PStr ''builtins'')]),
           PDict [(PStr ''__module__'', PStr ''builtins'')])"
    using plain(2)
    by (rule unbox_type_plain_or_tagged [THEN conjunct1, THEN mp])
  have box_case:
    "unbox_type example_contexts example_env (boxed ''builtins'' ''int'' (PInt 5)) None =
      (case get_type default_context example_env ''builtins'' ''int'' False of
         Inl e \<Rightarrow> Inl e | Inr ty \<Rightarrow> Inr (ty, PInt 5))"
    using tagged tags example_contexts_default
    by (intro unbox_type_plain_or_tagged [THEN conjunct2, THEN conjunct1, THEN mp] conjI)
  show ?thesis
    unfolding int_case dict_case box_case default_context_resolves_int
    by simp
qed

text \<open>
  C5. For a type that the context locates as \<open>(m, k)\<close>: a configuration that is a dict
  with the three keys and carries exactly the tag \<open>(m, k)\<close> is returned as it is; any other
  configuration is wrapped in a dict with exactly the three keys, tagged \<open>(m, k)\<close>, with
  the configuration under \<open>__instance__\<close>.
\<close>

theorem box_type_idempotent:
  assumes "get_context CONTEXTS context = Inr ctx" and "locate ctx env T = Inr (m, k)"
  shows "(has_box_keys c \<and> dict_lookup c ''__module__'' = Some (PStr m) \<and>
          dict_lookup c ''__class__'' = Some (PStr k) \<longrightarrow>
            box_type CONTEXTS env T c context = Inr c) \<and>
         (\<not> (has_box_keys c \<and> dict_lookup c ''__module__'' = Some (PStr m) \<and>
             dict_lookup c ''__class__'' = Some (PStr k)) \<longrightarrow>
            box_type CONTEXTS env T c context = Inr (boxed m k c)) \<and>
         has_box_keys (boxed m k c) \<and>
         dict_lookup (boxed m k c) ''__module__'' = Some (PStr m) \<and>
         dict_lookup (boxed m k c) ''__class__'' = Some (PStr k) \<and>
         dict_lookup (boxed m k c) ''__instance__'' = Some c"
  using assms by (auto simp add: box_type_def boxed_def)

theorem box_type_idempotent_witness:
  "get_context example_contexts None = Inr default_context \<and>
   locate default_context example_env int_t = Inr (''builtins'', ''int'') \<and>
   box_type example_contexts example_env int_t (boxed ''builtins'' ''int'' (PInt 5)) None =
     Inr (boxed ''builtins'' ''int'' (PInt 5)) \<and>
   box_type example_contexts example_env int_t (PInt 5) None =
     Inr (boxed ''builtins'' ''int'' (PInt 5))"
proof -
  have tagged: "has_box_keys (boxed ''builtins'' ''int'' (PInt 5)) \<and>
      dict_lookup (boxed ''builtins'' ''int'' (PInt 5)) ''__module__'' = Some (PStr ''builtins'') \<and>
      dict_lookup (boxed ''builtins'' ''int'' (PInt 5)) ''__class__'' = Some (PStr ''int'')"
    by (auto simp add: boxed_def)
  have plain: "\<not> has_box_keys (PInt 5)"
    by simp
  note again = box_type_idempotent
    [OF example_contexts_default default_context_locates_int,
     of "boxed ''builtins'' ''int'' (PInt 5)"]
  note first = box_type_idempotent
    [OF example_contexts_default default_context_locates_int, of "PInt 5"]
  show ?thesis
    using tagged plain again first example_contexts_default default_context_locates_int
    by simp
qed

text \<open>
  C10. For a type that the context locates as \<open>(m, k)\<close> and a configuration that is a dict
  with the three keys whose tag is not \<open>(m, k)\<close>, \<open>box_type\<close> wraps again: the result is a
  new dict with the three keys, tagged \<open>(m, k)\<close>, whose \<open>__instance__\<close> is the whole
  configuration given.
\<close>

theorem box_type_other_tag_nests:
  assumes "get_context CONTEXTS context = Inr ctx" and "locate ctx env T = Inr (m, k)"
    and "has_box_keys c"
    and "dict_lookup c ''__module__'' \<noteq> Some (PStr m) \<or>
         dict_lookup c ''__class__'' \<noteq> Some (PStr k)"
  shows "box_type CONTEXTS env T c context = Inr (boxed m k c) \<and>
         boxed m k c \<noteq> c \<and> has_box_keys (boxed m k c) \<and>
         dict_lookup (boxed m k c) ''__module__'' = Some (PStr m) \<and>
         dict_lookup (boxed m k c) ''__class__'' = Some (PStr k) \<and>
         dict_lookup (boxed m k c) ''__instance__'' = Some c"
proof -
  have tags: "dict_lookup (boxed m k c) ''__module__'' = Some (PStr m)"
    "dict_lookup (boxed m k c) ''__class__'' = Some (PStr k)"
    "dict_lookup (boxed m k c) ''__instance__'' = Some c"
    by (simp_all add: boxed_def)
  have keys: "has_box_keys (boxed m k c)"
    by (auto simp add: boxed_def)
  have new: "boxed m k c \<noteq> c"
    using tags(1,2) assms(4) by metis
  have "box_type CONTEXTS env T c context = Inr (boxed m k c)"
    using assms by (auto simp add: box_type_def)
  with tags keys new show ?thesis by simp
qed

theorem box_type_other_tag_nests_witness:
  "get_context example_contexts None = Inr default_context \<and>
   locate default_context example_env int_t = Inr (''builtins'', ''int'') \<and>
   has_box_keys (boxed ''builtins'' ''str'' (PStr ''5'')) \<and>
   dict_lookup (boxed ''builtins'' ''str'' (PStr ''5'')) ''__class__'' \<noteq> Some (PStr ''int'') \<and>
   box_type example_contexts example_env int_t (boxed ''builtins'' ''str'' (PStr ''5'')) None =
     Inr (boxed ''builtins'' ''int'' (boxed ''builtins'' ''str'' (PStr ''5'')))"
proof -
  have keys: "has_box_keys (boxed ''builtins'' ''str'' (PStr ''5''))"
    by (auto simp add: boxed_def)
  have other: "dict_lookup (boxed ''builtins'' ''str'' (PStr ''5'')) ''__class__'' \<noteq>
      Some (PStr ''int'')"
    by (simp add: boxed_def)
  then have tag: "dict_lookup (boxed ''builtins'' ''str'' (PStr ''5'')) ''__module__'' \<noteq>
        Some (PStr ''builtins'') \<or>
      dict_lookup (boxed ''builtins'' ''str'' (PStr ''5'')) ''__class__'' \<noteq> Some (PStr ''int'')"
    by blast
  note nested = box_type_other_tag_nests
    [OF example_contexts_default default_context_locates_int keys tag]
  show ?thesis
    using keys other nested example_contexts_default default_context_locates_int
    by blast
qed

section \<open>The hook registry\<close>











text \<open>
  What holds of C7: a call without \<open>overwrite\<close> for a type that has an entry raises the
  conflict with the recorded place of the earlier registration, in the call that makes
  the decorator already; a call with \<open>overwrite\<close> and the function given as \<open>func\<close>
  replaces the entry.
\<close>

lemma config_getter_conflict:
  assumes "GET_CONFIG_REGISTRY h T \<noteq> None" and "GET_CONFIG_FROM h T = Some info"
  shows "config_getter h [T] typed func False caller = Raised (GetterConflict T info)"
  using assms by (auto simp add: config_getter_def)

lemma config_setter_conflict:
  assumes "CONFIGURE_REGISTRY h T \<noteq> None" and "CONFIGURE_FROM h T = Some info"
  shows "config_setter h [T] func False caller = Raised (SetterConflict T info)"
  using assms by (auto simp add: config_setter_def)

lemma config_getter_overwrite:
  "config_getter h [T] typed (Some f) True caller =
     Registered f
       (h\<lparr>GET_CONFIG_REGISTRY :=
            (GET_CONFIG_REGISTRY h)(T \<mapsto> if typed then ConfigTypeBoxer T f else f),
          GET_CONFIG_FROM := (GET_CONFIG_FROM h)(T \<mapsto> caller)\<rparr>)"
  by (simp add: config_getter_def config_type_boxer_def)

lemma config_setter_overwrite:
  "config_setter h [T] (Some f) True caller =
     Registered f
       (h\<lparr>CONFIGURE_REGISTRY := (CONFIGURE_REGISTRY h)(T \<mapsto> f),
          CONFIGURE_FROM := (CONFIGURE_FROM h)(T \<mapsto> caller)\<rparr>)"
  by (simp add: config_setter_def)


section \<open>Round trip of plain values\<close>



lemma issubclass_refl: "issubclass t t"
  by (cases t) simp

lemma isinstance_py_type: "isinstance v (py_type v)"
  by (simp add: isinstance_def issubclass_refl)











section \<open>The \<open>typed\<close> flag of \<open>get_config\<close>\<close>






section \<open>Encoding of properties with a declared type\<close>

lemma property_entry_declared_type:
  assumes "get_property_type property_name = Some property_type"
    and "property_entry CONTEXTS env context is_unconfigured_property get_property_type
           property_name property_value encoded = Inr (Some (key, entry))"
  shows "\<exists>ty config. entry = PTuple [PType ty, config]"
  using assms
  by (auto simp add: property_entry_def split: if_splits sum.splits)





end
